theory Spec2Isabelle
  imports Complex_Main "HOL-Library.AList"
begin

section \<open>Dates and numbers\<close>

text \<open>
  A JavaScript \<^verbatim>\<open>Date\<close> is its \<^verbatim>\<open>getTime()\<close> value: an integer number of
  milliseconds since the epoch. Amounts of money and rates are JavaScript numbers; they
  are taken here as exact rationals. The server's local time zone is taken to be UTC, so
  that \<^verbatim>\<open>d.setDate(d.getDate() + 1)\<close> adds exactly one day of milliseconds and
  \<^verbatim>\<open>d.setHours(0, 0, 0, 0)\<close> goes back to midnight UTC. The string
  \<^verbatim>\<open>d.toISOString().split('T')[0]\<close> (the UTC calendar date) is represented by the number
  of the UTC day.
\<close>

type_synonym date = int

definition MS_PER_DAY :: int where
  "MS_PER_DAY = 1000 * 60 * 60 * 24"

definition dateString :: "date \<Rightarrow> int" where
  "dateString d = d div MS_PER_DAY"

definition midnight :: "date \<Rightarrow> bool" where
  "midnight d = (d mod MS_PER_DAY = 0)"

definition math_round :: "rat \<Rightarrow> int" where
  \<comment> \<open>\<^verbatim>\<open>Math.round\<close>: the nearest integer, a tie going up.\<close>
  "math_round x = \<lfloor>x + 1 / 2\<rfloor>"

definition math_ceil :: "rat \<Rightarrow> int" where
  "math_ceil x = \<lceil>x\<rceil>"

section \<open>bookingPricingService.ts\<close>

record PricingParams =
  p_checkInDate :: date
  p_checkOutDate :: date
  p_pricePerNight :: rat
  p_discountAmount :: "rat option"
  p_taxRate :: "rat option"

record PricingCalculation =
  c_nights :: int
  c_pricePerNight :: rat
  c_basePrice :: rat
  c_taxAmount :: rat
  c_discountAmount :: rat
  c_totalPrice :: rat

definition DEFAULT_TAX_RATE :: rat where
  "DEFAULT_TAX_RATE = 12 / 100"

definition or_default :: "rat option \<Rightarrow> rat \<Rightarrow> rat" where
  \<comment> \<open>\<^verbatim>\<open>x || d\<close> on an optional number: \<^verbatim>\<open>undefined\<close> and \<^verbatim>\<open>0\<close> are both falsy.\<close>
  "or_default x d = (case x of None \<Rightarrow> d | Some v \<Rightarrow> if v = 0 then d else v)"

definition calculateNights :: "date \<Rightarrow> date \<Rightarrow> int" where
  "calculateNights checkInDate checkOutDate =
     (let timeDiff = checkOutDate - checkInDate
      in math_ceil (of_int timeDiff / of_int (1000 * 60 * 60 * 24)))"

definition calculatePricing :: "PricingParams \<Rightarrow> PricingCalculation" where
  "calculatePricing params =
     (let nights = calculateNights (p_checkInDate params) (p_checkOutDate params);
          pricePerNight = p_pricePerNight params;
          basePrice = pricePerNight * of_int nights;
          discountAmount = or_default (p_discountAmount params) 0;
          priceAfterDiscount = basePrice - discountAmount;
          taxRate = or_default (p_taxRate params) DEFAULT_TAX_RATE;
          taxAmount = of_int (math_round (priceAfterDiscount * taxRate));
          totalPrice = priceAfterDiscount + taxAmount
      in \<lparr> c_nights = nights, c_pricePerNight = pricePerNight, c_basePrice = basePrice,
           c_taxAmount = taxAmount, c_discountAmount = discountAmount,
           c_totalPrice = totalPrice \<rparr>)"

section \<open>Documents: models/Room and models/Booking\<close>

text \<open>
  The two Mongoose models are not among the sources; the fields are the ones the
  controllers and services read and write. A collection is the list of its documents in
  insertion order, and \<^verbatim>\<open>_id\<close> is unique in a collection.
\<close>

datatype booking_status = Pending | Confirmed | Cancelled

record Room =
  room_name :: string
  price :: rat
  capacity :: int
  totalRooms :: int
  isAvailable :: bool

record Booking =
  booking_id :: string
  bookingReference :: string
  user :: "string option"
  room :: string
  checkIn :: date
  checkOut :: date
  guests :: int
  children :: int
  numberOfRooms :: int
  guestName :: string
  guestEmail :: string
  guestPhone :: string
  nights :: "rat option"
  pricePerNight :: "rat option"
  totalPrice :: "rat option"
  taxAmount :: rat
  discountAmount :: rat
  paymentStatus :: string
  status :: booking_status
  specialRequests :: string
  cancelledAt :: "date option"
  cancelledBy :: "string option"
  cancellationReason :: "string option"

type_synonym rooms = "string \<Rightarrow> Room option"
type_synonym bookings = "Booking list"

datatype error =
    InvalidGuestName
  | InvalidPhoneNumber
  | InvalidChildren
  | InvalidSpecialRequests
  | RoomNotFound
  | RoomUnavailable
  | GuestCapacityExceeded
  | InvalidNumberOfRooms
  | InsufficientRoomsForGuests int
  | ExceedsMaxRooms int
  | NotEnoughRooms int "Booking option"
  | ValidationError
  | DuplicateReference
  | CheckOutNotAfterCheckIn
  | CheckInInPast
  | RoomNotAvailableForDates
  | BookingNotFound
  | NotCancellable

definition pendingOrConfirmed :: "Booking \<Rightarrow> bool" where
  \<comment> \<open>\<^verbatim>\<open>status: { $in: ['pending', 'confirmed'] }\<close>\<close>
  "pendingOrConfirmed b = (status b = Pending \<or> status b = Confirmed)"

definition findById :: "bookings \<Rightarrow> string \<Rightarrow> Booking option" where
  "findById store i = find (\<lambda>b. booking_id b = i) store"

definition save :: "bookings \<Rightarrow> Booking \<Rightarrow> bookings" where
  \<comment> \<open>The document with this \<^verbatim>\<open>_id\<close> is replaced.\<close>
  "save store b' = map (\<lambda>b. if booking_id b = booking_id b' then b' else b) store"

definition deleteOne :: "bookings \<Rightarrow> Booking \<Rightarrow> bookings" where
  "deleteOne store b' = filter (\<lambda>b. booking_id b \<noteq> booking_id b') store"

definition truthy :: "string option \<Rightarrow> bool" where
  \<comment> \<open>An optional string in a condition: \<^verbatim>\<open>undefined\<close> and \<^verbatim>\<open>''\<close> are falsy.\<close>
  "truthy s = (case s of None \<Rightarrow> False | Some v \<Rightarrow> v \<noteq> [])"

definition isSpace :: "char \<Rightarrow> bool" where
  "isSpace c = (c \<in> set [CHR '' '', CHR 0x09, CHR 0x0A, CHR 0x0B, CHR 0x0C, CHR 0x0D])"

definition trim :: "string \<Rightarrow> string" where
  "trim s = rev (dropWhile isSpace (rev (dropWhile isSpace s)))"

definition toLowerCase :: "string \<Rightarrow> string" where
  \<comment> \<open>On the letters A to Z.\<close>
  "toLowerCase s =
     map (\<lambda>c. if c \<in> set ''ABCDEFGHIJKLMNOPQRSTUVWXYZ''
               then char_of (of_char c + (32::nat)) else c) s"

section \<open>The parts of the repository that are not among the sources\<close>

text \<open>
  \<^verbatim>\<open>createBooking\<close> calls six validators of \<^verbatim>\<open>BookingValidationService\<close> whose
  bodies are not in the sources, reads the table \<^verbatim>\<open>MAX_ROOMS_PER_TYPE\<close> of
  \<^verbatim>\<open>validators/bookingValidator\<close>, and \<^verbatim>\<open>Booking.create\<close> and
  \<^verbatim>\<open>findByIdAndUpdate\<close> run the validators of the Mongoose schema. They are parameters
  of the model: each validator is the function from its arguments to \<^verbatim>\<open>isValid\<close>.
\<close>

record UpdateBookingData =
  u_checkIn :: "date option"
  u_checkOut :: "date option"
  u_guests :: "int option"
  u_children :: "int option"
  u_numberOfRooms :: "int option"
  u_status :: "booking_status option"
  u_paymentStatus :: "string option"
  u_specialRequests :: "string option"

record policy =
  validateGuestName :: "string \<Rightarrow> bool"
  validatePhoneNumber :: "string \<Rightarrow> bool"
  validateChildren :: "int \<Rightarrow> int \<Rightarrow> bool"
  validateSpecialRequests :: "string \<Rightarrow> bool"
  validateGuestCapacityByRoomType :: "int \<Rightarrow> string \<Rightarrow> bool"
  validateNumberOfRoomsByType :: "int \<Rightarrow> string \<Rightarrow> bool"
  MAX_ROOMS_PER_TYPE :: "string \<Rightarrow> int option"
  schemaValidators :: "Booking \<Rightarrow> bool"
  updateValidators :: "UpdateBookingData \<Rightarrow> bool"

definition canBeCancelled :: "date \<Rightarrow> Booking \<Rightarrow> bool" where
  \<comment> \<open>Modelled from the spec: the method \<^verbatim>\<open>canBeCancelled\<close> of the Booking model is not
      among the sources. The spec: the stay's check-in must be at least 24 hours in the
      future at the moment of cancellation.\<close>
  "canBeCancelled now b = (MS_PER_DAY \<le> checkIn b - now)"

definition isDigit :: "char \<Rightarrow> bool" where
  "isDigit c = (c \<in> set ''0123456789'')"

fun countWords :: "bool \<Rightarrow> string \<Rightarrow> nat" where
  "countWords inWord [] = 0"
| "countWords inWord (c # cs) =
     (if isSpace c then countWords False cs
      else (if inWord then 0 else 1) + countWords True cs)"

definition specPolicy :: "nat \<Rightarrow> (string \<Rightarrow> int option) \<Rightarrow> (string \<Rightarrow> int option) \<Rightarrow> policy" where
  \<comment> \<open>Modelled from the spec: the six validators, from rules 2, 3, 4, 5, 7 and 8 of the
      spec's section 4.2. The word-count ceiling, the capacity of each room type and the
      maximum room count of each room type are not given by the spec and are arguments.
      The schema's validators are taken to accept every document.\<close>
  "specPolicy maxWords capacityByType maxRoomsByType =
     \<lparr> validateGuestName = (\<lambda>n. \<forall>c \<in> set n. \<not> isDigit c),
       validatePhoneNumber = (\<lambda>p. length p = 10 \<and> (\<forall>c \<in> set p. isDigit c)),
       validateChildren = (\<lambda>c g. 0 \<le> c \<and> c \<le> g),
       validateSpecialRequests = (\<lambda>s. countWords False s \<le> maxWords),
       validateGuestCapacityByRoomType =
         (\<lambda>g n. case capacityByType n of None \<Rightarrow> True | Some m \<Rightarrow> g \<le> m),
       validateNumberOfRoomsByType =
         (\<lambda>k n. case maxRoomsByType n of None \<Rightarrow> True | Some m \<Rightarrow> k \<le> m),
       MAX_ROOMS_PER_TYPE = maxRoomsByType,
       schemaValidators = (\<lambda>b. True),
       updateValidators = (\<lambda>u. True) \<rparr>"

section \<open>bookingValidationService.ts\<close>

definition validateRoom :: "rooms \<Rightarrow> string \<Rightarrow> error + Room" where
  "validateRoom catalog roomId =
     (case catalog roomId of
        None \<Rightarrow> Inl RoomNotFound
      | Some r \<Rightarrow> if \<not> isAvailable r then Inl RoomUnavailable else Inr r)"

definition validateGuestCapacity :: "int \<Rightarrow> int \<Rightarrow> bool" where
  "validateGuestCapacity g roomCapacity = (\<not> g > roomCapacity)"


definition checkBookingConflict ::
  "bookings \<Rightarrow> string \<Rightarrow> date \<Rightarrow> date \<Rightarrow> string option \<Rightarrow> Booking option" where
  \<comment> \<open>The result is \<^verbatim>\<open>conflictingBooking\<close>; \<^verbatim>\<open>hasConflict\<close> is that there is one.\<close>
  "checkBookingConflict store roomId checkInDate checkOutDate excludeBookingId =
     find (\<lambda>b. room b = roomId \<and> pendingOrConfirmed b
                \<and> checkIn b < checkOutDate \<and> checkOut b > checkInDate
                \<and> (truthy excludeBookingId \<longrightarrow> Some (booking_id b) \<noteq> excludeBookingId))
          store"

section \<open>bookingService.ts\<close>

record BookingRequest =
  rq_user :: "string option"
  rq_room :: string
  rq_checkIn :: date
  rq_checkOut :: date
  rq_guests :: int
  rq_children :: "int option"
  rq_numberOfRooms :: int
  rq_guestName :: string
  rq_guestEmail :: string
  rq_guestPhone :: string
  rq_nights :: "rat option"
  rq_pricePerNight :: "rat option"
  rq_totalPrice :: "rat option"
  rq_taxAmount :: "rat option"
  rq_discountAmount :: "rat option"
  rq_paymentStatus :: "string option"
  rq_status :: "booking_status option"
  rq_specialRequests :: "string option"

text \<open>
  The request body after \<^verbatim>\<open>new Date(checkIn)\<close> and \<^verbatim>\<open>new Date(checkOut)\<close>, with
  its room, guest count, room count, name, email and phone present. An absent
  number that goes through \<^verbatim>\<open>Number\<close> is \<^verbatim>\<open>NaN\<close>, written \<open>None\<close> in the document.
  The new document's \<^verbatim>\<open>_id\<close> and booking reference are generated outside the sources
  and are the argument \<open>fresh\<close>; a reference that is already stored is the duplicate-key
  error 11000 that the controller reports.
\<close>

definition newBooking :: "string \<times> string \<Rightarrow> BookingRequest \<Rightarrow> Booking" where
  "newBooking fresh req =
     \<lparr> booking_id = fst fresh,
       bookingReference = snd fresh,
       user = rq_user req,
       room = rq_room req,
       checkIn = rq_checkIn req,
       checkOut = rq_checkOut req,
       guests = rq_guests req,
       children = (case rq_children req of None \<Rightarrow> 0 | Some c \<Rightarrow> c),
       numberOfRooms = rq_numberOfRooms req,
       guestName = trim (rq_guestName req),
       guestEmail = toLowerCase (trim (rq_guestEmail req)),
       guestPhone = trim (rq_guestPhone req),
       nights = rq_nights req,
       pricePerNight = rq_pricePerNight req,
       totalPrice = rq_totalPrice req,
       taxAmount = or_default (rq_taxAmount req) 0,
       discountAmount = or_default (rq_discountAmount req) 0,
       paymentStatus =
         (case rq_paymentStatus req of None \<Rightarrow> ''pending''
          | Some s \<Rightarrow> if s = [] then ''pending'' else s),
       status = Confirmed,
       specialRequests =
         trim (case rq_specialRequests req of None \<Rightarrow> [] | Some s \<Rightarrow> s),
       cancelledAt = None,
       cancelledBy = None,
       cancellationReason = None \<rparr>"

definition BookingService_createBooking ::
  "policy \<Rightarrow> bookings \<Rightarrow> string \<times> string \<Rightarrow> BookingRequest \<Rightarrow> (error + Booking) \<times> bookings" where
  "BookingService_createBooking P store fresh req =
     (let booking = newBooking fresh req
      in if \<not> schemaValidators P booking then (Inl ValidationError, store)
         else if \<exists>b \<in> set store. bookingReference b = bookingReference booking
         then (Inl DuplicateReference, store)
         else (Inr booking, store @ [booking]))"

definition applyUpdate :: "Booking \<Rightarrow> UpdateBookingData \<Rightarrow> Booking" where
  "applyUpdate b u =
     b \<lparr> checkIn := (case u_checkIn u of None \<Rightarrow> checkIn b | Some v \<Rightarrow> v),
         checkOut := (case u_checkOut u of None \<Rightarrow> checkOut b | Some v \<Rightarrow> v),
         guests := (case u_guests u of None \<Rightarrow> guests b | Some v \<Rightarrow> v),
         children := (case u_children u of None \<Rightarrow> children b | Some v \<Rightarrow> v),
         numberOfRooms := (case u_numberOfRooms u of None \<Rightarrow> numberOfRooms b | Some v \<Rightarrow> v),
         status := (case u_status u of None \<Rightarrow> status b | Some v \<Rightarrow> v),
         paymentStatus := (case u_paymentStatus u of None \<Rightarrow> paymentStatus b | Some v \<Rightarrow> v),
         specialRequests :=
           (case u_specialRequests u of None \<Rightarrow> specialRequests b | Some v \<Rightarrow> v) \<rparr>"

definition BookingService_updateBooking ::
  "policy \<Rightarrow> bookings \<Rightarrow> string \<Rightarrow> UpdateBookingData \<Rightarrow> (error + Booking option) \<times> bookings" where
  \<comment> \<open>\<^verbatim>\<open>findByIdAndUpdate(bookingId, data, { new: true, runValidators: true })\<close>\<close>
  "BookingService_updateBooking P store bookingId data =
     (if \<not> updateValidators P data then (Inl ValidationError, store)
      else case findById store bookingId of
             None \<Rightarrow> (Inr None, store)
           | Some b \<Rightarrow> (Inr (Some (applyUpdate b data)), save store (applyUpdate b data)))"

definition cancelBooking ::
  "bookings \<Rightarrow> date \<Rightarrow> string \<Rightarrow> string option \<Rightarrow> string option \<Rightarrow> (error + Booking) \<times> bookings" where
  "cancelBooking store now bookingId userId reason =
     (case findById store bookingId of
        None \<Rightarrow> (Inl BookingNotFound, store)
      | Some booking \<Rightarrow>
          if \<not> canBeCancelled now booking then (Inl NotCancellable, store)
          else let booking' = booking
                     \<lparr> status := Cancelled,
                       cancelledAt := Some now,
                       cancelledBy := (if truthy userId then userId else cancelledBy booking),
                       cancellationReason :=
                         (if truthy reason then reason else cancellationReason booking) \<rparr>
               in (Inr booking', save store booking'))"

definition deleteBooking :: "bookings \<Rightarrow> string \<Rightarrow> (error + Booking) \<times> bookings" where
  "deleteBooking store bookingId =
     (case findById store bookingId of
        None \<Rightarrow> (Inl BookingNotFound, store)
      | Some booking \<Rightarrow> (Inr booking, deleteOne store booking))"

section \<open>createBookingController.ts\<close>

text \<open>
  The controller that counts the booked rooms of the room type. Every step that answers
  the request with an error leaves the collection as it is. The notification e-mail that
  follows a stored booking is caught when it fails and changes nothing here; it is left
  out.
\<close>

definition existingBookings :: "bookings \<Rightarrow> string \<Rightarrow> date \<Rightarrow> date \<Rightarrow> bookings" where
  "existingBookings store roomId checkInDate checkOutDate =
     filter (\<lambda>b. room b = roomId \<and> pendingOrConfirmed b
                  \<and> checkIn b < checkOutDate \<and> checkOut b > checkInDate) store"

definition roomsBooked :: "Booking \<Rightarrow> int" where
  \<comment> \<open>\<^verbatim>\<open>booking.numberOfRooms || 1\<close>\<close>
  "roomsBooked b = (if numberOfRooms b = 0 then 1 else numberOfRooms b)"

definition getOrZero :: "(int \<times> int) list \<Rightarrow> int \<Rightarrow> int" where
  \<comment> \<open>\<^verbatim>\<open>bookingsPerDate.get(dateString) || 0\<close>\<close>
  "getOrZero m k = (case map_of m k of None \<Rightarrow> 0 | Some v \<Rightarrow> v)"

function countDates :: "date \<Rightarrow> date \<Rightarrow> int \<Rightarrow> (int \<times> int) list \<Rightarrow> (int \<times> int) list" where
  "countDates currentDate bCheckOut n m =
     (if currentDate < bCheckOut
      then countDates (currentDate + MS_PER_DAY) bCheckOut n
             (AList.update (dateString currentDate) (getOrZero m (dateString currentDate) + n) m)
      else m)"
  by pat_completeness auto
termination
  by (relation "measure (\<lambda>(c, e, n, m). nat (e - c))") (auto simp: MS_PER_DAY_def)

declare countDates.simps [simp del]

definition bookingsPerDate :: "bookings \<Rightarrow> (int \<times> int) list" where
  \<comment> \<open>The \<^verbatim>\<open>Map\<close> from date strings to room counts, in insertion order.\<close>
  "bookingsPerDate existing =
     fold (\<lambda>b m. countDates (checkIn b) (checkOut b) (roomsBooked b) m) existing []"

definition maxBookedRooms :: "(int \<times> int) list \<Rightarrow> int" where
  "maxBookedRooms m = (if m \<noteq> [] then Max (set (map snd m)) else 0)"

definition availableRooms :: "Room \<Rightarrow> bookings \<Rightarrow> int" where
  "availableRooms rm existing = totalRooms rm - maxBookedRooms (bookingsPerDate existing)"

definition createBooking ::
  "policy \<Rightarrow> rooms \<Rightarrow> bookings \<Rightarrow> string \<times> string \<Rightarrow> BookingRequest \<Rightarrow> (error + Booking) \<times> bookings" where
  "createBooking P catalog store fresh req =
     (if \<not> validateGuestName P (rq_guestName req) then (Inl InvalidGuestName, store)
      else if \<not> validatePhoneNumber P (rq_guestPhone req) then (Inl InvalidPhoneNumber, store)
      else if \<not> validateChildren P (case rq_children req of None \<Rightarrow> 0 | Some c \<Rightarrow> c)
                   (rq_guests req)
      then (Inl InvalidChildren, store)
      else if (case rq_specialRequests req of None \<Rightarrow> False
               | Some s \<Rightarrow> s \<noteq> [] \<and> \<not> validateSpecialRequests P s)
      then (Inl InvalidSpecialRequests, store)
      else case validateRoom catalog (rq_room req) of
        Inl e \<Rightarrow> (Inl e, store)
      | Inr rm \<Rightarrow>
          if \<not> validateGuestCapacityByRoomType P (rq_guests req) (room_name rm)
          then (Inl GuestCapacityExceeded, store)
          else if \<not> validateNumberOfRoomsByType P (rq_numberOfRooms req) (room_name rm)
          then (Inl InvalidNumberOfRooms, store)
          else let requiredRooms = math_ceil (of_int (rq_guests req) / 3)
          in if rq_numberOfRooms req < requiredRooms
          then (Inl (InsufficientRoomsForGuests requiredRooms), store)
          else if (case MAX_ROOMS_PER_TYPE P (room_name rm) of None \<Rightarrow> False
                   | Some maxRoomsForType \<Rightarrow>
                       maxRoomsForType \<noteq> 0 \<and> rq_numberOfRooms req > maxRoomsForType)
          then (Inl (ExceedsMaxRooms (case MAX_ROOMS_PER_TYPE P (room_name rm) of
                                        None \<Rightarrow> 0 | Some maxRoomsForType \<Rightarrow> maxRoomsForType)),
                store)
          else let existing =
                     existingBookings store (rq_room req) (rq_checkIn req) (rq_checkOut req);
                   available = availableRooms rm existing
          in if available < rq_numberOfRooms req
          then (Inl (NotEnoughRooms available
                       (case existing of [] \<Rightarrow> None | b # _ \<Rightarrow> Some b)), store)
          else BookingService_createBooking P store fresh req)"

section \<open>updateBookingController.ts\<close>

definition updateBooking ::
  "policy \<Rightarrow> bookings \<Rightarrow> string \<Rightarrow> UpdateBookingData \<Rightarrow> (error + Booking option) \<times> bookings" where
  "updateBooking P store bookingId body =
     (case findById store bookingId of
        None \<Rightarrow> (Inl BookingNotFound, store)
      | Some booking \<Rightarrow>
          if (u_checkIn body \<noteq> None \<or> u_checkOut body \<noteq> None)
             \<and> checkBookingConflict store (room booking)
                  (case u_checkIn body of None \<Rightarrow> checkIn booking | Some v \<Rightarrow> v)
                  (case u_checkOut body of None \<Rightarrow> checkOut booking | Some v \<Rightarrow> v)
                  (Some bookingId) \<noteq> None
          then (Inl RoomNotAvailableForDates, store)
          else BookingService_updateBooking P store bookingId body)"

section \<open>roomController.ts: the availability calendar\<close>

record AvailabilityCalendar =
  cal_roomName :: string
  cal_startDate :: int
  cal_endDate :: int
  availability :: "(int \<times> bool) list"

function markBookedDates :: "date \<Rightarrow> date \<Rightarrow> int set \<Rightarrow> int set" where
  "markBookedDates d bCheckOut bookedDates =
     (if d < bCheckOut
      then markBookedDates (d + MS_PER_DAY) bCheckOut (insert (dateString d) bookedDates)
      else bookedDates)"
  by pat_completeness auto
termination
  by (relation "measure (\<lambda>(d, e, s). nat (e - d))") (auto simp: MS_PER_DAY_def)

declare markBookedDates.simps [simp del]

function availabilityFrom :: "date \<Rightarrow> date \<Rightarrow> int set \<Rightarrow> (int \<times> bool) list" where
  "availabilityFrom d endDate bookedDates =
     (if d \<le> endDate
      then (dateString d, dateString d \<notin> bookedDates)
           # availabilityFrom (d + MS_PER_DAY) endDate bookedDates
      else [])"
  by pat_completeness auto
termination
  by (relation "measure (\<lambda>(d, e, s). nat (e - d + 1))") (auto simp: MS_PER_DAY_def)

declare availabilityFrom.simps [simp del]

definition getRoomAvailability ::
  "rooms \<Rightarrow> bookings \<Rightarrow> date \<Rightarrow> string \<Rightarrow> date option \<Rightarrow> error + AvailabilityCalendar" where
  "getRoomAvailability catalog store now roomId startDate =
     (case catalog roomId of
        None \<Rightarrow> Inl RoomNotFound
      | Some rm \<Rightarrow>
          if \<not> isAvailable rm then Inl RoomNotFound
          else let start0 = (case startDate of None \<Rightarrow> now | Some d \<Rightarrow> d);
                   start = start0 - start0 mod MS_PER_DAY;
                   endDate = start + 30 * MS_PER_DAY;
                   found = filter (\<lambda>b. room b = roomId \<and> pendingOrConfirmed b
                                       \<and> checkIn b < endDate \<and> checkOut b > start) store;
                   bookedDates =
                     fold (\<lambda>b s. markBookedDates (checkIn b) (checkOut b) s) found {}
               in Inr \<lparr> cal_roomName = room_name rm,
                        cal_startDate = dateString start,
                        cal_endDate = dateString endDate,
                        availability = availabilityFrom start endDate bookedDates \<rparr>)"

section \<open>The notions of the specification\<close>

text \<open>
  A reservation occupies the night \<open>d\<close> (a UTC day number) when midnight of that day lies in
  its window \<open>[checkIn, checkOut)\<close>. The occupancy of a room type on a night is the sum of
  the rooms requested by the pending and confirmed reservations that occupy the night.
\<close>

definition coversNight :: "Booking \<Rightarrow> int \<Rightarrow> bool" where
  "coversNight b d = (checkIn b \<le> d * MS_PER_DAY \<and> d * MS_PER_DAY < checkOut b)"

definition occupancy :: "bookings \<Rightarrow> string \<Rightarrow> int \<Rightarrow> int" where
  "occupancy store roomId d =
     (\<Sum>b\<leftarrow>store. if room b = roomId \<and> pendingOrConfirmed b \<and> coversNight b d
                  then numberOfRooms b else 0)"




text \<open>
  The validation rules in the order in which the controller runs them; each rule gives
  the failure it reports, or none.
\<close>

type_synonym rule = "BookingRequest \<Rightarrow> error option"

fun firstFailure :: "rule list \<Rightarrow> BookingRequest \<Rightarrow> error option" where
  "firstFailure [] req = None"
| "firstFailure (r # rs) req = (case r req of Some e \<Rightarrow> Some e | None \<Rightarrow> firstFailure rs req)"

definition ruleGuestName :: "policy \<Rightarrow> rule" where
  "ruleGuestName P req =
     (if validateGuestName P (rq_guestName req) then None else Some InvalidGuestName)"

definition rulePhoneNumber :: "policy \<Rightarrow> rule" where
  "rulePhoneNumber P req =
     (if validatePhoneNumber P (rq_guestPhone req) then None else Some InvalidPhoneNumber)"

definition ruleChildren :: "policy \<Rightarrow> rule" where
  "ruleChildren P req =
     (if validateChildren P (case rq_children req of None \<Rightarrow> 0 | Some c \<Rightarrow> c) (rq_guests req)
      then None else Some InvalidChildren)"

definition ruleSpecialRequests :: "policy \<Rightarrow> rule" where
  "ruleSpecialRequests P req =
     (case rq_specialRequests req of
        None \<Rightarrow> None
      | Some s \<Rightarrow> if s = [] \<or> validateSpecialRequests P s then None
                  else Some InvalidSpecialRequests)"

definition ruleRoom :: "rooms \<Rightarrow> rule" where
  "ruleRoom catalog req =
     (case catalog (rq_room req) of
        None \<Rightarrow> Some RoomNotFound
      | Some rm \<Rightarrow> if isAvailable rm then None else Some RoomUnavailable)"

definition ruleGuestCapacity :: "policy \<Rightarrow> rooms \<Rightarrow> rule" where
  "ruleGuestCapacity P catalog req =
     (case catalog (rq_room req) of
        None \<Rightarrow> None
      | Some rm \<Rightarrow> if validateGuestCapacityByRoomType P (rq_guests req) (room_name rm)
                   then None else Some GuestCapacityExceeded)"

definition ruleNumberOfRooms :: "policy \<Rightarrow> rooms \<Rightarrow> rule" where
  "ruleNumberOfRooms P catalog req =
     (case catalog (rq_room req) of
        None \<Rightarrow> None
      | Some rm \<Rightarrow> if validateNumberOfRoomsByType P (rq_numberOfRooms req) (room_name rm)
                   then None else Some InvalidNumberOfRooms)"

definition ruleRoomsForGuests :: rule where
  \<comment> \<open>Three guests to a room: at least \<open>\<lceil>guests / 3\<rceil>\<close> rooms.\<close>
  "ruleRoomsForGuests req =
     (if rq_numberOfRooms req * 3 < rq_guests req
      then Some (InsufficientRoomsForGuests ((rq_guests req + 2) div 3)) else None)"

definition ruleMaxRooms :: "policy \<Rightarrow> rooms \<Rightarrow> rule" where
  "ruleMaxRooms P catalog req =
     (case catalog (rq_room req) of
        None \<Rightarrow> None
      | Some rm \<Rightarrow>
          (case MAX_ROOMS_PER_TYPE P (room_name rm) of
             None \<Rightarrow> None
           | Some m \<Rightarrow> if m \<noteq> 0 \<and> m < rq_numberOfRooms req then Some (ExceedsMaxRooms m)
                       else None))"

definition creationRules :: "policy \<Rightarrow> rooms \<Rightarrow> rule list" where
  "creationRules P catalog =
     [ruleGuestName P, rulePhoneNumber P, ruleChildren P, ruleSpecialRequests P,
      ruleRoom catalog, ruleGuestCapacity P catalog, ruleNumberOfRooms P catalog,
      ruleRoomsForGuests, ruleMaxRooms P catalog]"

definition admission ::
  "policy \<Rightarrow> Room \<Rightarrow> bookings \<Rightarrow> string \<times> string \<Rightarrow> BookingRequest \<Rightarrow> (error + Booking) \<times> bookings" where
  \<comment> \<open>What the controller does with a request that passed every rule.\<close>
  "admission P rm store fresh req =
     (let existing = existingBookings store (rq_room req) (rq_checkIn req) (rq_checkOut req)
      in if rq_numberOfRooms req \<le> availableRooms rm existing
         then BookingService_createBooking P store fresh req
         else (Inl (NotEnoughRooms (availableRooms rm existing)
                      (case existing of [] \<Rightarrow> None | b # _ \<Rightarrow> Some b)), store))"

text \<open>
  The states of the collection of bookings that a run of creations, cancellations and
  deletions, one operation after the other, reaches from the empty collection, where the
  requests follow the spec's data model: both dates at midnight UTC and at least one room.
\<close>

definition dataModel :: "BookingRequest \<Rightarrow> bool" where
  "dataModel req =
     (midnight (rq_checkIn req) \<and> midnight (rq_checkOut req) \<and> 1 \<le> rq_numberOfRooms req)"

inductive reachable :: "policy \<Rightarrow> rooms \<Rightarrow> bookings \<Rightarrow> bool" for P :: policy and catalog :: rooms where
  initial: "reachable P catalog []"
| create: "reachable P catalog s \<Longrightarrow> dataModel req
           \<Longrightarrow> createBooking P catalog s fresh req = (res, s') \<Longrightarrow> reachable P catalog s'"
| cancel: "reachable P catalog s
           \<Longrightarrow> cancelBooking s now bookingId userId reason = (res, s') \<Longrightarrow> reachable P catalog s'"
| delete: "reachable P catalog s
           \<Longrightarrow> deleteBooking s bookingId = (res, s') \<Longrightarrow> reachable P catalog s'"

section \<open>Notions used in the proofs\<close>

definition visits :: "date \<Rightarrow> date \<Rightarrow> int \<Rightarrow> bool" where
  \<comment> \<open>The date strings that the loop over a booking from \<open>c\<close> to \<open>e\<close> counts.\<close>
  "visits c e d = (dateString c \<le> d \<and> c + (d - dateString c) * MS_PER_DAY < e)"




section \<open>The scenario of the specification\<close>

text \<open>
  The room type Deluxe with 2 rooms at 3500 a night; day 20148 is 2025-03-01. The policy
  takes 50 words as the ceiling of a special request, 6 guests as the capacity of Deluxe
  and 2 rooms as its largest room count.
\<close>

definition deluxe :: Room where
  "deluxe = \<lparr> room_name = ''Deluxe'', price = 3500, capacity = 6, totalRooms = 2,
              isAvailable = True \<rparr>"

definition catalog0 :: rooms where
  "catalog0 = (\<lambda>i. if i = ''r1'' then Some deluxe else None)"

definition policy0 :: policy where
  "policy0 = specPolicy 50 (\<lambda>n. if n = ''Deluxe'' then Some 6 else None)
               (\<lambda>n. if n = ''Deluxe'' then Some 2 else None)"

definition request0 :: "int \<Rightarrow> int \<Rightarrow> int \<Rightarrow> int \<Rightarrow> BookingRequest" where
  "request0 firstDay lastDay g n =
     \<lparr> rq_user = None, rq_room = ''r1'',
       rq_checkIn = firstDay * MS_PER_DAY, rq_checkOut = lastDay * MS_PER_DAY,
       rq_guests = g, rq_children = None, rq_numberOfRooms = n,
       rq_guestName = ''Asha Rao'', rq_guestEmail = ''Asha@Example.com'',
       rq_guestPhone = ''9876543210'',
       rq_nights = Some 2, rq_pricePerNight = Some 3500, rq_totalPrice = Some 7840,
       rq_taxAmount = Some 840, rq_discountAmount = None,
       rq_paymentStatus = None, rq_status = None, rq_specialRequests = None \<rparr>"

definition bookingA :: Booking where
  "bookingA = newBooking (''b1'', ''REF1'') (request0 20148 20150 2 1)"

definition bookingB :: Booking where
  "bookingB = newBooking (''b2'', ''REF2'') (request0 20148 20150 2 1)"

definition addRoom :: UpdateBookingData where
  "addRoom = \<lparr> u_checkIn = None, u_checkOut = None, u_guests = None, u_children = None,
               u_numberOfRooms = Some 2, u_status = None, u_paymentStatus = None,
               u_specialRequests = None \<rparr>"

definition bookingC :: Booking where
  "bookingC = newBooking (''b3'', ''REF3'') (request0 20150 20152 2 1)"

definition bookingLate :: Booking where
  "bookingLate = newBooking (''b4'', ''REF4'') (request0 30 31 2 1)"

definition bookingB' :: Booking where
  "bookingB' = newBooking (''b5'', ''REF5'') (request0 20148 20150 2 1)"

section \<open>Properties of the pricing calculator\<close>

lemma MS_PER_DAY_pos: "0 < MS_PER_DAY"
  by (simp add: MS_PER_DAY_def)


lemma math_round_of_int [simp]: "math_round (of_int k) = k"
  by (simp add: math_round_def floor_eq_iff)

lemma math_round_zero [simp]: "math_round 0 = 0"
  using math_round_of_int [of 0] by simp

lemma math_round_numeral [simp]: "math_round (numeral n) = numeral n"
  using math_round_of_int [of "numeral n"] by simp

text \<open>
  C4. For \<open>checkOut > checkIn\<close> the number of nights is the ceiling of the elapsed time
  over one day: the least \<open>n\<close> with \<open>n\<close> days covering the elapsed time. It is at least 1
  (also below 24 hours), and it is exactly 1 for a window of exactly 24 hours.
\<close>

theorem calculateNights_ceiling:
  "ci < co \<Longrightarrow>
     (calculateNights ci co - 1) * MS_PER_DAY < co - ci
     \<and> co - ci \<le> calculateNights ci co * MS_PER_DAY
     \<and> 1 \<le> calculateNights ci co
     \<and> calculateNights ci (ci + MS_PER_DAY) = 1"
proof -
  assume lt: "ci < co"
  define n where "n = calculateNights ci co"
  define q :: rat where "q = of_int (co - ci) / of_int MS_PER_DAY"
  have n: "n = \<lceil>q\<rceil>"
    by (simp add: n_def q_def calculateNights_def math_ceil_def MS_PER_DAY_def)
  have dpos: "(0::rat) < of_int MS_PER_DAY"
    using MS_PER_DAY_pos by simp
  have "of_int n - 1 < q" "q \<le> of_int n"
    using ceiling_correct [of q] by (simp_all add: n)
  then have "(of_int n - 1) * of_int MS_PER_DAY < (of_int (co - ci) :: rat)"
    and "(of_int (co - ci) :: rat) \<le> of_int n * of_int MS_PER_DAY"
    using dpos by (simp_all add: q_def pos_less_divide_eq pos_divide_le_eq)
  then have "(of_int ((n - 1) * MS_PER_DAY) :: rat) < of_int (co - ci)"
    and "(of_int (co - ci) :: rat) \<le> of_int (n * MS_PER_DAY)"
    by simp_all
  then have a: "(n - 1) * MS_PER_DAY < co - ci"
    and b: "co - ci \<le> n * MS_PER_DAY"
    by (simp_all only: of_int_less_iff of_int_le_iff)
  have "0 < q"
    using lt dpos by (simp add: q_def)
  then have c: "1 \<le> n"
    by (simp add: n le_ceiling_iff)
  have d: "calculateNights ci (ci + MS_PER_DAY) = 1"
    by (simp add: calculateNights_def math_ceil_def MS_PER_DAY_def)
  from a b c d show ?thesis
    by (simp add: n_def)
qed

theorem calculateNights_ceiling_witness:
  "(0::int) < 3600000
   \<and> (calculateNights 0 3600000 - 1) * MS_PER_DAY < 3600000 - 0
   \<and> 3600000 - 0 \<le> calculateNights 0 3600000 * MS_PER_DAY
   \<and> 1 \<le> calculateNights 0 3600000
   \<and> calculateNights 0 (0 + MS_PER_DAY) = 1"
proof -
  have h: "(0::int) < 3600000" by simp
  show ?thesis
    using h calculateNights_ceiling [OF h] by simp
qed




section \<open>The per-date counter\<close>

lemma dateString_next: "dateString (c + MS_PER_DAY) = dateString c + 1"
  by (simp add: dateString_def MS_PER_DAY_def)

lemma visits_step:
  "c < e \<Longrightarrow> visits c e d = (d = dateString c \<or> visits (c + MS_PER_DAY) e d)"
  unfolding visits_def dateString_next
  by (auto simp: algebra_simps)

lemma visits_stop: "\<not> c < e \<Longrightarrow> \<not> visits c e d"
proof -
  assume a: "\<not> c < e"
  { assume "dateString c \<le> d"
    then have "0 \<le> (d - dateString c) * MS_PER_DAY" using MS_PER_DAY_pos by simp
    then have "\<not> c + (d - dateString c) * MS_PER_DAY < e" using a by linarith }
  then show ?thesis unfolding visits_def by blast
qed














lemma midnight_dateString: "midnight c \<Longrightarrow> dateString c * MS_PER_DAY = c"
  using div_mult_mod_eq [of c MS_PER_DAY] by (simp add: midnight_def dateString_def)

lemma visits_coversNight:
  assumes "midnight (checkIn b)"
  shows "visits (checkIn b) (checkOut b) d = coversNight b d"
proof -
  define k where "k = dateString (checkIn b)"
  have c: "checkIn b = k * MS_PER_DAY"
    using assms by (simp add: k_def midnight_dateString)
  have "(k \<le> d) = (k * MS_PER_DAY \<le> d * MS_PER_DAY)"
    using MS_PER_DAY_pos by simp
  moreover have "k * MS_PER_DAY + (d - k) * MS_PER_DAY = d * MS_PER_DAY"
    by (simp add: algebra_simps)
  ultimately show ?thesis
    unfolding visits_def coversNight_def k_def [symmetric] by (simp add: c)
qed



section \<open>The rules of a creation request\<close>

lemma requiredRooms_eq: "math_ceil (of_int g / 3) = (g + 2) div 3"
proof -
  have "\<lceil>(of_int g :: rat) / of_int 3\<rceil> = - (- g div 3)"
    by (rule ceiling_divide_eq_div)
  also have "\<dots> = (g + 2) div 3" by presburger
  finally show ?thesis by (simp add: math_ceil_def)
qed

lemma requiredRooms_less: "(n < (g + 2) div 3) = (n * 3 < (g::int))"
  by presburger

lemma requiredRooms_le: "((g + 2) div 3 \<le> n) = ((g::int) \<le> n * 3)"
  by presburger

lemma createBooking_rules:
  "createBooking P catalog store fresh req =
     (case firstFailure (creationRules P catalog) req of
        Some e \<Rightarrow> (Inl e, store)
      | None \<Rightarrow> (case catalog (rq_room req) of
                   None \<Rightarrow> (Inl RoomNotFound, store)
                 | Some rm \<Rightarrow> admission P rm store fresh req))"
  unfolding createBooking_def creationRules_def admission_def Let_def requiredRooms_eq
  by (simp add: requiredRooms_less requiredRooms_le ruleGuestName_def rulePhoneNumber_def ruleChildren_def ruleSpecialRequests_def
      ruleRoom_def ruleGuestCapacity_def ruleNumberOfRooms_def ruleRoomsForGuests_def
      ruleMaxRooms_def validateRoom_def not_less split: option.splits)

section \<open>Operations and the inventory\<close>





lemma findById_Some: "findById s i = Some b \<Longrightarrow> b \<in> set s \<and> booking_id b = i"
  by (auto simp: findById_def find_Some_iff)






section \<open>Peak occupancy\<close>








section \<open>The scenario, evaluated\<close>

lemma rules_scenario:
  "0 \<le> g \<Longrightarrow> g \<le> 6 \<Longrightarrow> n \<le> 2 \<Longrightarrow> g \<le> n * 3 \<Longrightarrow>
     firstFailure (creationRules policy0 catalog0) (request0 f l g n) = None"
  by (simp add: creationRules_def ruleGuestName_def rulePhoneNumber_def ruleChildren_def
      ruleSpecialRequests_def ruleRoom_def ruleGuestCapacity_def ruleNumberOfRooms_def
      ruleRoomsForGuests_def ruleMaxRooms_def policy0_def specPolicy_def catalog0_def deluxe_def
      request0_def isDigit_def)

lemma policy0_schema [simp]: "schemaValidators policy0 b" "updateValidators policy0 u"
  by (simp_all add: policy0_def specPolicy_def)

lemma catalog0_r1 [simp]: "catalog0 ''r1'' = Some deluxe"
  by (simp add: catalog0_def)

lemma bookingA_fields:
  "booking_id bookingA = ''b1''" "bookingReference bookingA = ''REF1''"
  "room bookingA = ''r1''" "status bookingA = Confirmed"
  "checkIn bookingA = 20148 * MS_PER_DAY" "checkOut bookingA = 20150 * MS_PER_DAY"
  "numberOfRooms bookingA = 1"
  by (simp_all add: bookingA_def newBooking_def request0_def)

lemma bookingB_fields:
  "booking_id bookingB = ''b2''" "bookingReference bookingB = ''REF2''"
  "room bookingB = ''r1''" "status bookingB = Confirmed"
  "checkIn bookingB = 20148 * MS_PER_DAY" "checkOut bookingB = 20150 * MS_PER_DAY"
  "numberOfRooms bookingB = 1"
  by (simp_all add: bookingB_def newBooking_def request0_def)

lemma request0_fields:
  "rq_room (request0 f l g n) = ''r1''" "rq_checkIn (request0 f l g n) = f * MS_PER_DAY"
  "rq_checkOut (request0 f l g n) = l * MS_PER_DAY" "rq_numberOfRooms (request0 f l g n) = n"
  by (simp_all add: request0_def)

lemma available_empty: "availableRooms deluxe [] = 2"
  by (simp add: availableRooms_def bookingsPerDate_def maxBookedRooms_def deluxe_def)

lemma available_A: "availableRooms deluxe [bookingA] = 1"
  by (simp add: availableRooms_def bookingsPerDate_def maxBookedRooms_def deluxe_def
      bookingA_fields roomsBooked_def countDates.simps getOrZero_def dateString_def
      MS_PER_DAY_def)




section \<open>The inventory of a room type\<close>




text \<open>
  The admission reads the collection and writes it later, with nothing held in between.
  When two requests for the last free Deluxe room are both checked against the collection
  that holds only the first booking, both pass, and the two writes leave three rooms of
  two booked.
\<close>

lemma admissions_on_one_snapshot:
  "rq_numberOfRooms (request0 20148 20150 2 1)
     \<le> availableRooms deluxe
          (existingBookings [bookingA] ''r1'' (20148 * MS_PER_DAY) (20150 * MS_PER_DAY))
   \<and> BookingService_createBooking policy0 [bookingA] (''b2'', ''REF2'')
         (request0 20148 20150 2 1) = (Inr bookingB, [bookingA, bookingB])
   \<and> BookingService_createBooking policy0 [bookingA, bookingB] (''b5'', ''REF5'')
         (request0 20148 20150 2 1) = (Inr bookingB', [bookingA, bookingB, bookingB'])
   \<and> occupancy [bookingA, bookingB, bookingB'] ''r1'' 20148 = 3
   \<and> totalRooms deluxe = 2"
proof -
  have f: "bookingReference bookingB' = ''REF5''" "room bookingB' = ''r1''"
    "status bookingB' = Confirmed" "checkIn bookingB' = 20148 * MS_PER_DAY"
    "checkOut bookingB' = 20150 * MS_PER_DAY" "numberOfRooms bookingB' = 1"
    by (simp_all add: bookingB'_def newBooking_def request0_def)
  have e: "existingBookings [bookingA] ''r1'' (20148 * MS_PER_DAY) (20150 * MS_PER_DAY)
             = [bookingA]"
    by (simp add: existingBookings_def bookingA_fields pendingOrConfirmed_def MS_PER_DAY_def)
  have 1: "rq_numberOfRooms (request0 20148 20150 2 1)
     \<le> availableRooms deluxe
          (existingBookings [bookingA] ''r1'' (20148 * MS_PER_DAY) (20150 * MS_PER_DAY))"
    by (simp add: e available_A request0_fields)
  have 2: "BookingService_createBooking policy0 [bookingA] (''b2'', ''REF2'')
         (request0 20148 20150 2 1) = (Inr bookingB, [bookingA, bookingB])"
    by (simp add: BookingService_createBooking_def Let_def bookingB_def [symmetric]
        bookingA_fields bookingB_fields)
  have 3: "BookingService_createBooking policy0 [bookingA, bookingB] (''b5'', ''REF5'')
         (request0 20148 20150 2 1) = (Inr bookingB', [bookingA, bookingB, bookingB'])"
    by (simp add: BookingService_createBooking_def Let_def bookingB'_def [symmetric]
        bookingA_fields bookingB_fields f)
  have 4: "occupancy [bookingA, bookingB, bookingB'] ''r1'' 20148 = 3"
    by (simp add: occupancy_def bookingA_fields bookingB_fields f pendingOrConfirmed_def
        coversNight_def MS_PER_DAY_def)
  from 1 2 3 4 show ?thesis
    by (simp add: deluxe_def)
qed

section \<open>Admission against the peak occupancy\<close>



section \<open>The overlap test\<close>

lemma bookingC_fields:
  "booking_id bookingC = ''b3''" "bookingReference bookingC = ''REF3''"
  "room bookingC = ''r1''" "status bookingC = Confirmed"
  "checkIn bookingC = 20150 * MS_PER_DAY" "checkOut bookingC = 20152 * MS_PER_DAY"
  "numberOfRooms bookingC = 1"
  by (simp_all add: bookingC_def newBooking_def request0_def)

text \<open>
  C5. The conflict check reports a conflict exactly when a pending or confirmed
  reservation of the room has \<open>checkIn < to\<close> and \<open>checkOut > from\<close>, and the controller's
  query finds exactly those reservations. A request that checks in on the check-out date
  of the only reservation meets no conflict, finds no booked room and, asking for no more
  rooms than the room type has, goes on to be stored.
\<close>

theorem conflict_iff_overlap:
  "((checkBookingConflict store roomId ci co None \<noteq> None)
      = (\<exists>b \<in> set store. room b = roomId \<and> pendingOrConfirmed b
                            \<and> checkIn b < co \<and> checkOut b > ci))
   \<and> set (existingBookings store roomId ci co)
       = {b \<in> set store. room b = roomId \<and> pendingOrConfirmed b
                          \<and> checkIn b < co \<and> checkOut b > ci}
   \<and> (rq_room req = room b \<and> rq_checkIn req = checkOut b
        \<and> rq_numberOfRooms req \<le> totalRooms rm \<longrightarrow>
        checkBookingConflict [b] (room b) (rq_checkIn req) (rq_checkOut req) None = None
        \<and> existingBookings [b] (room b) (rq_checkIn req) (rq_checkOut req) = []
        \<and> admission P rm [b] fresh req = BookingService_createBooking P [b] fresh req)"
proof -
  have 1: "(checkBookingConflict store roomId ci co None \<noteq> None)
      = (\<exists>b \<in> set store. room b = roomId \<and> pendingOrConfirmed b
                            \<and> checkIn b < co \<and> checkOut b > ci)"
    by (auto simp: checkBookingConflict_def find_None_iff truthy_def)
  have 2: "set (existingBookings store roomId ci co)
       = {b \<in> set store. room b = roomId \<and> pendingOrConfirmed b
                          \<and> checkIn b < co \<and> checkOut b > ci}"
    by (auto simp: existingBookings_def)
  have 3: "checkBookingConflict [b] (room b) (rq_checkIn req) (rq_checkOut req) None = None
        \<and> existingBookings [b] (room b) (rq_checkIn req) (rq_checkOut req) = []
        \<and> admission P rm [b] fresh req = BookingService_createBooking P [b] fresh req"
    if "rq_room req = room b" "rq_checkIn req = checkOut b"
      "rq_numberOfRooms req \<le> totalRooms rm"
    using that
    by (simp add: checkBookingConflict_def existingBookings_def admission_def availableRooms_def
        bookingsPerDate_def maxBookedRooms_def)
  from 1 2 3 show ?thesis by blast
qed

theorem conflict_iff_overlap_witness:
  "checkBookingConflict [bookingA] ''r1'' (20150 * MS_PER_DAY) (20152 * MS_PER_DAY) None = None
   \<and> checkBookingConflict [bookingA] ''r1'' (20149 * MS_PER_DAY) (20151 * MS_PER_DAY) None
       = Some bookingA
   \<and> createBooking policy0 catalog0 [bookingA] (''b3'', ''REF3'') (request0 20150 20152 2 1)
       = (Inr bookingC, [bookingA, bookingC])"
proof -
  let ?req = "request0 20150 20152 2 1"
  have h: "rq_room ?req = room bookingA \<and> rq_checkIn ?req = checkOut bookingA
             \<and> rq_numberOfRooms ?req \<le> totalRooms deluxe"
    by (simp add: request0_fields bookingA_fields deluxe_def)
  have ov: "\<exists>b \<in> set [bookingA]. room b = ''r1'' \<and> pendingOrConfirmed b
              \<and> checkIn b < 20151 * MS_PER_DAY \<and> checkOut b > 20149 * MS_PER_DAY"
    by (simp add: bookingA_fields pendingOrConfirmed_def MS_PER_DAY_def)
  note t = conflict_iff_overlap [of "[bookingA]" "''r1''" _ _ ?req bookingA deluxe policy0
      "(''b3'', ''REF3'')"]
  from t [of "20149 * MS_PER_DAY" "20151 * MS_PER_DAY"] ov
  have "checkBookingConflict [bookingA] ''r1'' (20149 * MS_PER_DAY) (20151 * MS_PER_DAY) None
          \<noteq> None"
    by blast
  then have c2: "checkBookingConflict [bookingA] ''r1'' (20149 * MS_PER_DAY)
      (20151 * MS_PER_DAY) None = Some bookingA"
    by (auto simp: checkBookingConflict_def split: if_splits)
  from t [of 0 0] h
  have c1: "checkBookingConflict [bookingA] (room bookingA) (rq_checkIn ?req) (rq_checkOut ?req)
        None = None"
    and a: "admission policy0 deluxe [bookingA] (''b3'', ''REF3'') ?req
        = BookingService_createBooking policy0 [bookingA] (''b3'', ''REF3'') ?req"
    by blast+
  have "createBooking policy0 catalog0 [bookingA] (''b3'', ''REF3'') ?req
          = (Inr bookingC, [bookingA, bookingC])"
    by (simp add: createBooking_rules rules_scenario request0_fields a
        BookingService_createBooking_def bookingC_def [symmetric] bookingC_fields
        bookingA_fields Let_def)
  with c1 c2 show ?thesis
    by (simp add: request0_fields bookingA_fields)
qed

section \<open>The pricing snapshot of a reservation\<close>

text \<open>
  C10. The pricing snapshot of an admitted reservation is the client's: nights, nightly
  rate and total are stored as sent, tax and discount are stored as sent or as 0 when
  absent, whatever the room type's rate and the requested window are.
\<close>

theorem snapshot_from_client:
  "createBooking P catalog store fresh req = (Inr b, store') \<Longrightarrow>
     nights b = rq_nights req \<and> pricePerNight b = rq_pricePerNight req
     \<and> totalPrice b = rq_totalPrice req
     \<and> taxAmount b = (case rq_taxAmount req of None \<Rightarrow> 0 | Some v \<Rightarrow> v)
     \<and> discountAmount b = (case rq_discountAmount req of None \<Rightarrow> 0 | Some v \<Rightarrow> v)
     \<and> store' = store @ [b]"
proof -
  assume a: "createBooking P catalog store fresh req = (Inr b, store')"
  from a have "BookingService_createBooking P store fresh req = (Inr b, store')"
    by (auto simp: createBooking_rules admission_def Let_def split: option.splits if_splits)
  then have b: "b = newBooking fresh req" and s: "store' = store @ [b]"
    by (auto simp: BookingService_createBooking_def Let_def split: if_splits)
  show ?thesis
    unfolding b using s b
    by (simp add: newBooking_def or_default_def split: option.splits)
qed

theorem snapshot_from_client_witness:
  "createBooking policy0 catalog0 [] (''b1'', ''REF1'')
       ((request0 20148 20150 2 1) \<lparr> rq_totalPrice := Some 1, rq_taxAmount := None \<rparr>)
     = (Inr (bookingA \<lparr> totalPrice := Some 1, taxAmount := 0 \<rparr>),
        [bookingA \<lparr> totalPrice := Some 1, taxAmount := 0 \<rparr>])
   \<and> totalPrice (bookingA \<lparr> totalPrice := Some 1, taxAmount := 0 \<rparr>) = Some 1
   \<and> taxAmount (bookingA \<lparr> totalPrice := Some 1, taxAmount := 0 \<rparr>) = 0
   \<and> c_totalPrice (calculatePricing \<lparr> p_checkInDate = 20148 * MS_PER_DAY,
         p_checkOutDate = 20150 * MS_PER_DAY, p_pricePerNight = price deluxe,
         p_discountAmount = None, p_taxRate = None \<rparr>) = 7840"
proof -
  let ?req = "(request0 20148 20150 2 1) \<lparr> rq_totalPrice := Some 1, rq_taxAmount := None \<rparr>"
  let ?b = "bookingA \<lparr> totalPrice := Some 1, taxAmount := 0 \<rparr>"
  have nb: "newBooking (''b1'', ''REF1'') ?req = ?b"
    by (simp add: bookingA_def newBooking_def request0_def or_default_def)
  have ok: "firstFailure (creationRules policy0 catalog0) ?req = None"
    by (simp add: creationRules_def ruleGuestName_def rulePhoneNumber_def ruleChildren_def
      ruleSpecialRequests_def ruleRoom_def ruleGuestCapacity_def ruleNumberOfRooms_def
      ruleRoomsForGuests_def ruleMaxRooms_def policy0_def specPolicy_def catalog0_def deluxe_def
      request0_def isDigit_def)
  have c: "createBooking policy0 catalog0 [] (''b1'', ''REF1'') ?req = (Inr ?b, [?b])"
    by (simp add: createBooking_rules ok admission_def request0_fields existingBookings_def
        available_empty BookingService_createBooking_def nb Let_def)
  have p: "c_totalPrice (calculatePricing \<lparr> p_checkInDate = 20148 * MS_PER_DAY,
         p_checkOutDate = 20150 * MS_PER_DAY, p_pricePerNight = price deluxe,
         p_discountAmount = None, p_taxRate = None \<rparr>) = 7840"
    by (simp add: calculatePricing_def calculateNights_def math_ceil_def or_default_def
        DEFAULT_TAX_RATE_def MS_PER_DAY_def deluxe_def Let_def)
  from snapshot_from_client [OF c] c p show ?thesis
    by simp
qed

section \<open>Cancellation\<close>

lemma filter_save_cancelled:
  assumes c: "\<not> pendingOrConfirmed b'" and q: "\<And>x. Q x \<Longrightarrow> pendingOrConfirmed x"
  shows "filter Q (save store b') = filter Q (deleteOne store b')"
  using c q by (induction store) (auto simp: save_def deleteOne_def)

lemma find_filter_eq:
  "find Q xs = (case filter Q xs of [] \<Rightarrow> None | x # _ \<Rightarrow> Some x)"
  by (induction xs) auto

lemma occupancy_filter:
  "occupancy store roomId d
     = (\<Sum>b\<leftarrow>filter (\<lambda>b. room b = roomId \<and> pendingOrConfirmed b \<and> coversNight b d) store.
          numberOfRooms b)"
  by (simp add: occupancy_def sum_list_map_filter')

lemma cancelled_not_counted:
  assumes c: "\<not> pendingOrConfirmed b'"
  shows "existingBookings (save store b') roomId ci co
           = existingBookings (deleteOne store b') roomId ci co"
    and "checkBookingConflict (save store b') roomId ci co e
           = checkBookingConflict (deleteOne store b') roomId ci co e"
    and "occupancy (save store b') roomId d = occupancy (deleteOne store b') roomId d"
    and "getRoomAvailability catalog (save store b') t roomId start
           = getRoomAvailability catalog (deleteOne store b') t roomId start"
proof -
  show "existingBookings (save store b') roomId ci co
           = existingBookings (deleteOne store b') roomId ci co"
    unfolding existingBookings_def by (rule filter_save_cancelled [OF c]) simp
  show "checkBookingConflict (save store b') roomId ci co e
           = checkBookingConflict (deleteOne store b') roomId ci co e"
    unfolding checkBookingConflict_def find_filter_eq
    by (subst filter_save_cancelled [OF c]) simp_all
  show "occupancy (save store b') roomId d = occupancy (deleteOne store b') roomId d"
    unfolding occupancy_filter by (subst filter_save_cancelled [OF c]) simp_all
  have h: "filter (\<lambda>b. room b = roomId \<and> pendingOrConfirmed b \<and> checkIn b < en \<and> checkOut b > st)
          (save store b')
        = filter (\<lambda>b. room b = roomId \<and> pendingOrConfirmed b \<and> checkIn b < en \<and> checkOut b > st)
          (deleteOne store b')" for en st
    by (rule filter_save_cancelled [OF c]) simp
  show "getRoomAvailability catalog (save store b') t roomId start
           = getRoomAvailability catalog (deleteOne store b') t roomId start"
    unfolding getRoomAvailability_def Let_def h ..
qed

text \<open>
  C6. Cancelling a reservation whose check-in is less than 24 hours after the moment of
  cancellation fails as not cancellable and leaves the collection as it was. With the
  check-in at least 24 hours away it succeeds: the reservation is stored with the status
  cancelled, and from then on the controller's query, the conflict check, the occupancy
  and the availability calendar give what they give without the reservation.
\<close>

theorem cancel_cutoff:
  "findById store bookingId = Some b \<Longrightarrow>
     (checkIn b - now < MS_PER_DAY \<longrightarrow>
        cancelBooking store now bookingId userId reason = (Inl NotCancellable, store))
     \<and> (MS_PER_DAY \<le> checkIn b - now \<longrightarrow>
        (\<exists>b'. cancelBooking store now bookingId userId reason = (Inr b', save store b')
              \<and> booking_id b' = bookingId \<and> status b' = Cancelled
              \<and> findById (save store b') bookingId = Some b'
              \<and> (\<forall>roomId ci co. existingBookings (save store b') roomId ci co
                                   = existingBookings (deleteOne store b') roomId ci co)
              \<and> (\<forall>roomId ci co e. checkBookingConflict (save store b') roomId ci co e
                                     = checkBookingConflict (deleteOne store b') roomId ci co e)
              \<and> (\<forall>roomId d. occupancy (save store b') roomId d
                               = occupancy (deleteOne store b') roomId d)
              \<and> (\<forall>catalog t roomId start.
                    getRoomAvailability catalog (save store b') t roomId start
                      = getRoomAvailability catalog (deleteOne store b') t roomId start)))"
proof -
  assume f: "findById store bookingId = Some b"
  define b' where "b' = b \<lparr> status := Cancelled, cancelledAt := Some now,
     cancelledBy := (if truthy userId then userId else cancelledBy b),
     cancellationReason := (if truthy reason then reason else cancellationReason b) \<rparr>"
  have id: "booking_id b = bookingId" and mem: "b \<in> set store"
    using findById_Some [OF f] by simp_all
  have id': "booking_id b' = bookingId" and st: "status b' = Cancelled"
    by (simp_all add: b'_def id)
  have nc: "\<not> pendingOrConfirmed b'"
    by (simp add: pendingOrConfirmed_def st)
  have late: "cancelBooking store now bookingId userId reason = (Inl NotCancellable, store)"
    if "checkIn b - now < MS_PER_DAY"
    using that by (simp add: cancelBooking_def f canBeCancelled_def)
  have early: "cancelBooking store now bookingId userId reason = (Inr b', save store b')"
    if "MS_PER_DAY \<le> checkIn b - now"
    using that by (simp add: cancelBooking_def f canBeCancelled_def b'_def Let_def)
  have kept: "findById (save store b') bookingId = Some b'"
    using f unfolding findById_def save_def
    by (induction store) (auto simp: id' split: if_splits)
  from late early id' st kept cancelled_not_counted [OF nc] show ?thesis
    by (intro conjI impI) (assumption, blast)
qed

theorem cancel_cutoff_witness:
  "cancelBooking [bookingA] (20147 * MS_PER_DAY + 1) ''b1'' None None
     = (Inl NotCancellable, [bookingA])
   \<and> cancelBooking [bookingA] (20147 * MS_PER_DAY) ''b1'' None None
       = (Inr (bookingA \<lparr> status := Cancelled, cancelledAt := Some (20147 * MS_PER_DAY) \<rparr>),
          [bookingA \<lparr> status := Cancelled, cancelledAt := Some (20147 * MS_PER_DAY) \<rparr>])
   \<and> occupancy [bookingA] ''r1'' 20148 = 1
   \<and> occupancy [bookingA \<lparr> status := Cancelled, cancelledAt := Some (20147 * MS_PER_DAY) \<rparr>]
        ''r1'' 20148 = 0"
proof -
  let ?c = "bookingA \<lparr> status := Cancelled, cancelledAt := Some (20147 * MS_PER_DAY) \<rparr>"
  have f: "findById [bookingA] ''b1'' = Some bookingA"
    by (simp add: findById_def bookingA_fields)
  have l: "checkIn bookingA - (20147 * MS_PER_DAY + 1) < MS_PER_DAY"
    and e: "MS_PER_DAY \<le> checkIn bookingA - 20147 * MS_PER_DAY"
    by (simp_all add: bookingA_fields)
  from cancel_cutoff [OF f, of "20147 * MS_PER_DAY + 1" None None] l
  have 1: "cancelBooking [bookingA] (20147 * MS_PER_DAY + 1) ''b1'' None None
     = (Inl NotCancellable, [bookingA])"
    by blast
  from cancel_cutoff [OF f, of "20147 * MS_PER_DAY" None None] e
  obtain b' where c: "cancelBooking [bookingA] (20147 * MS_PER_DAY) ''b1'' None None
       = (Inr b', save [bookingA] b')"
    and o: "occupancy (save [bookingA] b') ''r1'' 20148
              = occupancy (deleteOne [bookingA] b') ''r1'' 20148"
    and i: "booking_id b' = ''b1''"
    by blast
  have b': "b' = ?c"
    using c by (simp add: cancelBooking_def f canBeCancelled_def bookingA_fields truthy_def
        Let_def)
  have sv: "save [bookingA] ?c = [?c]"
    by (simp add: save_def bookingA_fields)
  have "occupancy (deleteOne [bookingA] b') ''r1'' 20148 = 0"
    by (simp add: deleteOne_def i bookingA_fields occupancy_def)
  with o have 3: "occupancy [?c] ''r1'' 20148 = 0"
    by (simp add: b' sv)
  have 2: "occupancy [bookingA] ''r1'' 20148 = 1"
    by (simp add: occupancy_def bookingA_fields pendingOrConfirmed_def coversNight_def
        MS_PER_DAY_def)
  from 1 c 2 3 show ?thesis
    by (simp add: b' sv)
qed

section \<open>The order of the validation rules\<close>




section \<open>Updates\<close>

text \<open>
  C7. What the controller does with an update that changes no date: it is committed as
  it is, whatever room count it sets; no admission check is run.
\<close>

theorem update_room_count_unchecked:
  "findById store bookingId = Some b \<Longrightarrow> u_checkIn body = None \<Longrightarrow> u_checkOut body = None \<Longrightarrow>
   updateValidators P body \<Longrightarrow>
     updateBooking P store bookingId body
       = (Inr (Some (applyUpdate b body)), save store (applyUpdate b body))"
  by (simp add: updateBooking_def BookingService_updateBooking_def)

text \<open>
  At the failing input: the two Deluxe rooms are booked by two reservations for the same
  nights; without the first reservation one room is free. The update of the first
  reservation to two rooms is committed.
\<close>

theorem update_room_count_unchecked_witness:
  "availableRooms deluxe
     (existingBookings (deleteOne [bookingA, bookingB] bookingA) ''r1''
        (checkIn bookingA) (checkOut bookingA)) = 1
   \<and> updateBooking policy0 [bookingA, bookingB] ''b1'' addRoom
       = (Inr (Some (bookingA \<lparr> numberOfRooms := 2 \<rparr>)),
          [bookingA \<lparr> numberOfRooms := 2 \<rparr>, bookingB])"
proof -
  have "existingBookings (deleteOne [bookingA, bookingB] bookingA) ''r1''
          (checkIn bookingA) (checkOut bookingA) = [bookingB]"
    by (simp add: deleteOne_def existingBookings_def bookingA_fields bookingB_fields
        pendingOrConfirmed_def MS_PER_DAY_def)
  moreover have "availableRooms deluxe [bookingB] = 1"
    by (simp add: availableRooms_def bookingsPerDate_def maxBookedRooms_def deluxe_def
      bookingB_fields roomsBooked_def countDates.simps getOrZero_def dateString_def
      MS_PER_DAY_def)
  moreover have f: "findById [bookingA, bookingB] ''b1'' = Some bookingA"
    by (simp add: findById_def bookingA_fields)
  have "applyUpdate bookingA addRoom = bookingA \<lparr> numberOfRooms := 2 \<rparr>"
    by (simp add: applyUpdate_def addRoom_def)
  moreover have "save [bookingA, bookingB] (bookingA \<lparr> numberOfRooms := 2 \<rparr>)
                   = [bookingA \<lparr> numberOfRooms := 2 \<rparr>, bookingB]"
    by (simp add: save_def bookingA_fields bookingB_fields)
  ultimately show ?thesis
    using update_room_count_unchecked [OF f, of addRoom policy0]
    by (simp add: addRoom_def)
qed

lemma update_conflict_aborts:
  "fst (updateBooking P store bookingId body) = Inl RoomNotAvailableForDates \<Longrightarrow>
     snd (updateBooking P store bookingId body) = store"
  by (auto simp: updateBooking_def BookingService_updateBooking_def
      split: option.splits if_splits)

section \<open>The availability calendar\<close>

lemma markBookedDates_iff:
  "(d \<in> markBookedDates c e S) = (visits c e d \<or> d \<in> S)"
proof (induction c e S rule: markBookedDates.induct)
  case (1 c e S)
  show ?case
  proof (cases "c < e")
    case True
    with 1 show ?thesis
      by (subst markBookedDates.simps) (auto simp: visits_step)
  next
    case False
    then show ?thesis
      by (subst markBookedDates.simps) (simp add: visits_stop)
  qed
qed

lemma fold_markBookedDates_iff:
  "(d \<in> fold (\<lambda>b s. markBookedDates (checkIn b) (checkOut b) s) bs S)
     = ((\<exists>b \<in> set bs. visits (checkIn b) (checkOut b) d) \<or> d \<in> S)"
  by (induction bs arbitrary: S) (auto simp: markBookedDates_iff)

lemma dateString_mult: "dateString (k * MS_PER_DAY) = k"
  using MS_PER_DAY_pos by (simp add: dateString_def)

lemma floor_midnight: "t - t mod MS_PER_DAY = dateString t * MS_PER_DAY"
  using div_mult_mod_eq [of t MS_PER_DAY] unfolding dateString_def by linarith

lemma availabilityFrom_days:
  "availabilityFrom s (s + int n * MS_PER_DAY) S
     = map (\<lambda>d. (d, d \<notin> S)) [dateString s .. dateString s + int n]"
proof (induction n arbitrary: s)
  case 0
  have "\<not> s + MS_PER_DAY \<le> s" using MS_PER_DAY_pos by simp
  then have "availabilityFrom (s + MS_PER_DAY) s S = []"
    by (subst availabilityFrom.simps) simp
  then show ?case
    by (subst availabilityFrom.simps) simp
next
  case (Suc n)
  define e where "e = s + MS_PER_DAY + int n * MS_PER_DAY"
  have e: "s + int (Suc n) * MS_PER_DAY = e"
    by (simp add: e_def algebra_simps)
  have le: "s \<le> e"
    using MS_PER_DAY_pos by (simp add: e_def)
  have u: "[dateString s .. dateString s + int (Suc n)]
          = dateString s # [dateString s + 1 .. dateString s + 1 + int n]"
    by (subst upto_rec1) (simp_all add: add.commute add.left_commute)
  have "availabilityFrom s e S
          = (dateString s, dateString s \<notin> S) # availabilityFrom (s + MS_PER_DAY) e S"
    using le by (subst availabilityFrom.simps) simp
  also have "availabilityFrom (s + MS_PER_DAY) e S
          = map (\<lambda>d. (d, d \<notin> S)) [dateString s + 1 .. dateString s + 1 + int n]"
    unfolding e_def Suc.IH dateString_next ..
  finally show ?case
    unfolding e u by simp
qed

text \<open>
  C9. What the handler computes: 31 entries, for the day of the start date and the 30
  days after it; for reservations that check in at midnight, a day is marked unavailable
  exactly when a pending or confirmed reservation of the room that checks in before the
  thirtieth day after the start covers it. So the first 30 days are marked by the
  reservations that cover them, and the last entry misses the reservations that check in
  on its day.
\<close>

theorem calendar_entries:
  "catalog roomId = Some rm \<Longrightarrow> isAvailable rm \<Longrightarrow> (\<forall>b \<in> set store. midnight (checkIn b)) \<Longrightarrow>
   (let d0 = dateString (case start of None \<Rightarrow> now | Some t \<Rightarrow> t)
    in \<exists>c. getRoomAvailability catalog store now roomId start = Inr c
           \<and> cal_startDate c = d0 \<and> cal_endDate c = d0 + 30
           \<and> availability c
               = map (\<lambda>d. (d, \<not> (\<exists>b \<in> set store. room b = roomId \<and> pendingOrConfirmed b
                                       \<and> checkIn b < (d0 + 30) * MS_PER_DAY
                                       \<and> coversNight b d)))
                   [d0 .. d0 + 30])"
proof -
  assume rm: "catalog roomId = Some rm" and av: "isAvailable rm"
    and mid: "\<forall>b \<in> set store. midnight (checkIn b)"
  define t0 where "t0 = (case start of None \<Rightarrow> now | Some t \<Rightarrow> t)"
  define d0 where "d0 = dateString t0"
  define st where "st = t0 - t0 mod MS_PER_DAY"
  define en where "en = st + 30 * MS_PER_DAY"
  define found where "found = filter (\<lambda>b. room b = roomId \<and> pendingOrConfirmed b
                                       \<and> checkIn b < en \<and> checkOut b > st) store"
  define booked where "booked = fold (\<lambda>b s. markBookedDates (checkIn b) (checkOut b) s) found {}"
  have st: "st = d0 * MS_PER_DAY" and dst: "dateString st = d0"
    by (simp_all add: st_def d0_def floor_midnight dateString_mult)
  have en: "en = (d0 + 30) * MS_PER_DAY"
    by (simp add: en_def st algebra_simps)
  have den: "dateString en = d0 + 30"
    by (simp only: en dateString_mult)
  have g: "getRoomAvailability catalog store now roomId start
             = Inr \<lparr> cal_roomName = room_name rm, cal_startDate = dateString st,
                     cal_endDate = dateString en,
                     availability = availabilityFrom st en booked \<rparr>"
    by (simp add: getRoomAvailability_def rm av Let_def t0_def st_def en_def found_def
        booked_def)
  have "availabilityFrom st en booked = map (\<lambda>d. (d, d \<notin> booked)) [d0 .. d0 + 30]"
    using availabilityFrom_days [of st 30 booked] by (simp add: en_def dst)
  also have "\<dots> = map (\<lambda>d. (d, \<not> (\<exists>b \<in> set store. room b = roomId \<and> pendingOrConfirmed b
                                       \<and> checkIn b < (d0 + 30) * MS_PER_DAY
                                       \<and> coversNight b d)))
                   [d0 .. d0 + 30]"
  proof (rule map_cong [OF refl])
    fix d assume "d \<in> set [d0 .. d0 + 30]"
    then have d: "d0 \<le> d" "d \<le> d0 + 30" by simp_all
    have "st \<le> d * MS_PER_DAY"
      using d MS_PER_DAY_pos by (simp add: st)
    then have "(d \<in> booked) = (\<exists>b \<in> set store. room b = roomId \<and> pendingOrConfirmed b
                                       \<and> checkIn b < en \<and> coversNight b d)"
      unfolding booked_def fold_markBookedDates_iff found_def
      using mid by (auto simp: visits_coversNight coversNight_def)
    then show "(d, d \<notin> booked)
                 = (d, \<not> (\<exists>b \<in> set store. room b = roomId \<and> pendingOrConfirmed b
                                       \<and> checkIn b < (d0 + 30) * MS_PER_DAY
                                       \<and> coversNight b d))"
      by (simp add: en)
  qed
  finally show ?thesis
    unfolding Let_def t0_def [symmetric] d0_def [symmetric]
    by (simp add: g dst den)
qed

text \<open>
  At the failing input: a confirmed reservation of the room for the night of day 30 and a
  calendar from day 0. The calendar has 31 entries, and its entry for day 30 says
  available.
\<close>

theorem calendar_entries_witness:
  "pendingOrConfirmed bookingLate \<and> room bookingLate = ''r1'' \<and> coversNight bookingLate 30
   \<and> map_sum id (\<lambda>c. (length (availability c), availability c ! 30))
        (getRoomAvailability catalog0 [bookingLate] 0 ''r1'' None) = Inr (31, (30, True))"
proof -
  have f: "room bookingLate = ''r1''" "status bookingLate = Confirmed"
    "checkIn bookingLate = 30 * MS_PER_DAY" "checkOut bookingLate = 31 * MS_PER_DAY"
    by (simp_all add: bookingLate_def newBooking_def request0_def)
  have m: "\<forall>b \<in> set [bookingLate]. midnight (checkIn b)"
    by (simp add: f midnight_def)
  have a: "isAvailable deluxe"
    by (simp add: deluxe_def)
  from calendar_entries [where catalog = catalog0 and roomId = "''r1''" and rm = deluxe
      and store = "[bookingLate]" and start = None and now = 0, OF catalog0_r1 a m]
  obtain c where c: "getRoomAvailability catalog0 [bookingLate] 0 ''r1'' None = Inr c"
    and l: "availability c
              = map (\<lambda>d. (d, \<not> (room bookingLate = ''r1'' \<and> pendingOrConfirmed bookingLate
                                  \<and> checkIn bookingLate < 30 * MS_PER_DAY
                                  \<and> coversNight bookingLate d)))
                  [0 .. 30]"
    by (auto simp: Let_def dateString_def)
  have "length (availability c) = 31"
    by (simp add: l)
  moreover have "availability c ! 30 = (30, True)"
    by (simp add: l f)
  ultimately show ?thesis
    by (simp add: c f pendingOrConfirmed_def coversNight_def MS_PER_DAY_def)
qed

end
